theory Spec2Isabelle
  imports Main
begin

section \<open>Bearer-token verifiers of the Auth0 and Okta server templates\<close>

text \<open>
  The two verifiers live in \<^verbatim>\<open>python/03-auth-oauth-server/auth.py\<close> (class
  \<^verbatim>\<open>Auth0TokenVerifier\<close>) and \<^verbatim>\<open>python/04-okta-oauth-server/auth.py\<close> (class
  \<^verbatim>\<open>OktaTokenVerifier\<close>). Each \<^verbatim>\<open>verify_token\<close> is one \<^verbatim>\<open>try\<close> block that
  resolves the signing key, decodes the token, normalises the claims and builds an
  \<^verbatim>\<open>AccessToken\<close>, followed by three \<^verbatim>\<open>except\<close> clauses.
\<close>

subsection \<open>Python values\<close>

text \<open>
  The decoded payload is a Python \<^verbatim>\<open>dict\<close> of JSON values. Non-integer numbers are
  left out of the value type; strings are lists of code points below 256.
\<close>

datatype json =
    JNull
  | JBool bool
  | JInt int
  | JStr string
  | JList "json list"
  | JObj "(string \<times> json) list"

type_synonym payload = "(string \<times> json) list"

text \<open>\<^verbatim>\<open>d.get(k, default)\<close>: the default is used only when the key is absent.\<close>

definition dict_get :: "payload \<Rightarrow> string \<Rightarrow> json \<Rightarrow> json" where
  "dict_get d k dflt = (case map_of d k of None \<Rightarrow> dflt | Some v \<Rightarrow> v)"

text \<open>Python truthiness, as tested by \<^verbatim>\<open>... if scope_str else []\<close>.\<close>

fun truthy :: "json \<Rightarrow> bool" where
  "truthy JNull = False"
| "truthy (JBool b) = b"
| "truthy (JInt n) = (n \<noteq> 0)"
| "truthy (JStr s) = (s \<noteq> [])"
| "truthy (JList xs) = (xs \<noteq> [])"
| "truthy (JObj kvs) = (kvs \<noteq> [])"

text \<open>
  \<^verbatim>\<open>str.split()\<close> without arguments: words are the maximal runs of characters that
  are not whitespace; leading, trailing and repeated whitespace produce no empty word.
  Whitespace is what \<^verbatim>\<open>str.isspace\<close> accepts among the code points below 256.
\<close>

definition isspace :: "char \<Rightarrow> bool" where
  "isspace c = (c \<in> set [CHR 0x09, CHR 0x0A, CHR 0x0B, CHR 0x0C, CHR 0x0D,
                          CHR 0x1C, CHR 0x1D, CHR 0x1E, CHR 0x1F, CHR 0x20,
                          CHR 0x85, CHR 0xA0])"

fun split_words :: "string \<Rightarrow> string \<Rightarrow> string list" where
  "split_words w [] = (if w = [] then [] else [w])"
| "split_words w (c # cs) =
     (if isspace c then (if w = [] then split_words [] cs else w # split_words [] cs)
      else split_words (w @ [c]) cs)"

definition str_split :: "string \<Rightarrow> string list" where
  "str_split s = split_words [] s"

subsection \<open>Failures\<close>

text \<open>
  The exceptions that can reach the \<^verbatim>\<open>except\<close> clauses, named by the failure
  taxonomy: key fetch failure and unknown key-id come from the JWKS client
  (\<^verbatim>\<open>PyJWKClientError\<close> and its subclass for connection errors), the next six from
  \<^verbatim>\<open>jwt.decode\<close> (subclasses of \<^verbatim>\<open>jwt.InvalidTokenError\<close>), and
  \<open>InternalError\<close> is any other subclass of \<^verbatim>\<open>Exception\<close>, carrying its class name.
\<close>

datatype failure =
    FetchFailure
  | KeyNotFound
  | MalformedToken
  | InvalidSignature
  | MissingClaim string
  | IssuerMismatch
  | AudienceMismatch
  | TokenExpired
  | InternalError string

text \<open>\<^verbatim>\<open>isinstance(e, jwt.ExpiredSignatureError)\<close> and \<^verbatim>\<open>isinstance(e, jwt.InvalidTokenError)\<close>.\<close>

fun is_ExpiredSignatureError :: "failure \<Rightarrow> bool" where
  "is_ExpiredSignatureError TokenExpired = True"
| "is_ExpiredSignatureError _ = False"

fun is_InvalidTokenError :: "failure \<Rightarrow> bool" where
  "is_InvalidTokenError MalformedToken = True"
| "is_InvalidTokenError InvalidSignature = True"
| "is_InvalidTokenError (MissingClaim c) = True"
| "is_InvalidTokenError IssuerMismatch = True"
| "is_InvalidTokenError AudienceMismatch = True"
| "is_InvalidTokenError TokenExpired = True"
| "is_InvalidTokenError _ = False"

subsection \<open>The access token\<close>

text \<open>
  \<^verbatim>\<open>AccessToken\<close> is the SDK's validated model with the fields \<^verbatim>\<open>token: str\<close>,
  \<^verbatim>\<open>client_id: str\<close>, \<^verbatim>\<open>scopes: list[str]\<close> and \<^verbatim>\<open>expires_at: int | None\<close>.
  Constructing it from values of other types raises a validation error; the
  constructor's coercions of numeric strings and booleans to \<^verbatim>\<open>int\<close> are not modelled.
\<close>

record access_token =
  token :: string
  client_id :: string
  scopes :: "string list"
  expires_at :: "int option"

fun str_items :: "json list \<Rightarrow> string list option" where
  "str_items [] = Some []"
| "str_items (JStr s # xs) = (case str_items xs of None \<Rightarrow> None | Some ss \<Rightarrow> Some (s # ss))"
| "str_items (_ # xs) = None"

fun as_str :: "json \<Rightarrow> string option" where
  "as_str (JStr s) = Some s"
| "as_str _ = None"

fun as_str_list :: "json \<Rightarrow> string list option" where
  "as_str_list (JList xs) = str_items xs"
| "as_str_list _ = None"

fun as_optional_int :: "json \<Rightarrow> int option option" where
  "as_optional_int JNull = Some None"
| "as_optional_int (JInt n) = Some (Some n)"
| "as_optional_int _ = None"

definition AccessToken :: "string \<Rightarrow> json \<Rightarrow> json \<Rightarrow> json \<Rightarrow> failure + access_token" where
  "AccessToken tok cid scs exp =
     (case (as_str cid, as_str_list scs, as_optional_int exp) of
        (Some c, Some ss, Some e) \<Rightarrow>
          Inr \<lparr>token = tok, client_id = c, scopes = ss, expires_at = e\<rparr>
      | _ \<Rightarrow> Inl (InternalError ''ValidationError''))"

subsection \<open>The JWT library\<close>

text \<open>
  The two calls into the JWT library are parameters of the verifiers:
  \<^verbatim>\<open>jwks_client.get_signing_key_from_jwt(token)\<close>, given the client's URL, and
  \<^verbatim>\<open>jwt.decode(token, key, algorithms=, issuer=, audience=, options={"require": ...})\<close>.
  Each returns its value or the exception it raises.
\<close>

type_synonym signing_key = string

record jwt_library =
  get_signing_key_from_jwt :: "string \<Rightarrow> string \<Rightarrow> failure + signing_key"
  decode :: "string \<Rightarrow> signing_key \<Rightarrow> string list \<Rightarrow> string \<Rightarrow> string \<Rightarrow> string list
             \<Rightarrow> failure + payload"

record PyJWKClient =
  uri :: string
  cache_keys :: bool
  lifespan :: nat

record verifier =
  issuer :: string
  audience :: string
  algorithms :: "string list"
  jwks_client :: PyJWKClient

text \<open>The three \<^verbatim>\<open>except\<close> clauses, tried in order; each returns \<^verbatim>\<open>None\<close>.\<close>

definition except_clauses :: "failure \<Rightarrow> failure + access_token option" where
  "except_clauses e =
     (if is_ExpiredSignatureError e then Inr None
      else if is_InvalidTokenError e then Inr None
      else Inr None)"

text \<open>\<^verbatim>\<open>scope_str.split()\<close> on a value that may not be a string.\<close>

fun split_method :: "json \<Rightarrow> failure + string list" where
  "split_method (JStr s) = Inr (str_split s)"
| "split_method _ = Inl (InternalError ''AttributeError'')"

subsection \<open>Auth0TokenVerifier\<close>

definition Auth0TokenVerifier :: "string \<Rightarrow> string \<Rightarrow> verifier" where
  "Auth0TokenVerifier domain aud =
     \<lparr>issuer = ''https://'' @ domain @ ''/'',
      audience = aud,
      algorithms = [''RS256''],
      jwks_client = \<lparr>uri = ''https://'' @ domain @ ''/.well-known/jwks.json'',
                     cache_keys = True, lifespan = 3600\<rparr>\<rparr>"

text \<open>
  The part of the \<^verbatim>\<open>try\<close> block after \<^verbatim>\<open>jwt.decode\<close> has returned the payload
  (lines 54 to 70): the scopes from the \<^verbatim>\<open>scope\<close> claim, the client from \<^verbatim>\<open>sub\<close>,
  the expiry from \<^verbatim>\<open>exp\<close>, and the construction of the \<^verbatim>\<open>AccessToken\<close>.
\<close>

definition auth0_grant :: "string \<Rightarrow> payload \<Rightarrow> failure + access_token" where
  "auth0_grant tok pl =
     (let scope_str = dict_get pl ''scope'' (JStr []) in
      case (if truthy scope_str then split_method scope_str else Inr []) of
        Inl e \<Rightarrow> Inl e
      | Inr scs \<Rightarrow>
         (let cid = dict_get pl ''sub'' (JStr ''unknown'');
              exp = dict_get pl ''exp'' JNull
          in AccessToken tok cid (JList (map JStr scs)) exp))"

text \<open>The whole \<^verbatim>\<open>try\<close> block: an exception raised by any step leaves it at once.\<close>

definition auth0_try :: "jwt_library \<Rightarrow> verifier \<Rightarrow> string \<Rightarrow> failure + access_token" where
  "auth0_try lib self tok =
     (case get_signing_key_from_jwt lib (uri (jwks_client self)) tok of
        Inl e \<Rightarrow> Inl e
      | Inr signing_key \<Rightarrow>
         (case decode lib tok signing_key (algorithms self) (issuer self) (audience self)
                 [''exp'', ''iss'', ''aud'', ''sub''] of
            Inl e \<Rightarrow> Inl e
          | Inr pl \<Rightarrow> auth0_grant tok pl))"

definition auth0_verify_token ::
  "jwt_library \<Rightarrow> verifier \<Rightarrow> string \<Rightarrow> failure + access_token option" where
  "auth0_verify_token lib self tok =
     (case auth0_try lib self tok of
        Inr grant \<Rightarrow> Inr (Some grant)
      | Inl e \<Rightarrow> except_clauses e)"

subsection \<open>OktaTokenVerifier\<close>

definition OktaTokenVerifier :: "string \<Rightarrow> string \<Rightarrow> string \<Rightarrow> verifier" where
  "OktaTokenVerifier domain aud auth_server_id =
     \<lparr>issuer = ''https://'' @ domain @ ''/oauth2/'' @ auth_server_id,
      audience = aud,
      algorithms = [''RS256''],
      jwks_client = \<lparr>uri = ''https://'' @ domain @ ''/oauth2/'' @ auth_server_id @ ''/v1/keys'',
                     cache_keys = True, lifespan = 3600\<rparr>\<rparr>"

text \<open>
  Lines 57 to 73: the scopes from the \<^verbatim>\<open>scp\<close> claim, split when it is a string and
  otherwise passed on as it is, and the client from \<^verbatim>\<open>cid\<close>, else \<^verbatim>\<open>sub\<close>.
\<close>

definition okta_grant :: "string \<Rightarrow> payload \<Rightarrow> failure + access_token" where
  "okta_grant tok pl =
     (let scs0 = dict_get pl ''scp'' (JList []);
          scs = (case scs0 of JStr s \<Rightarrow> JList (map JStr (str_split s)) | _ \<Rightarrow> scs0);
          cid = dict_get pl ''cid'' (dict_get pl ''sub'' (JStr ''unknown''));
          exp = dict_get pl ''exp'' JNull
      in AccessToken tok cid scs exp)"

definition okta_try :: "jwt_library \<Rightarrow> verifier \<Rightarrow> string \<Rightarrow> failure + access_token" where
  "okta_try lib self tok =
     (case get_signing_key_from_jwt lib (uri (jwks_client self)) tok of
        Inl e \<Rightarrow> Inl e
      | Inr signing_key \<Rightarrow>
         (case decode lib tok signing_key (algorithms self) (issuer self) (audience self)
                 [''exp'', ''iss'', ''aud'', ''sub''] of
            Inl e \<Rightarrow> Inl e
          | Inr pl \<Rightarrow> okta_grant tok pl))"

definition okta_verify_token ::
  "jwt_library \<Rightarrow> verifier \<Rightarrow> string \<Rightarrow> failure + access_token option" where
  "okta_verify_token lib self tok =
     (case okta_try lib self tok of
        Inr grant \<Rightarrow> Inr (Some grant)
      | Inl e \<Rightarrow> except_clauses e)"

subsection \<open>The claims validator behind \<^verbatim>\<open>jwt.decode\<close>\<close>

text \<open>
  Modelled from the spec: the decoded form of a token, for the Claims Validator of the
  design (section 4.2); the JWT library that decodes tokens is not part of the source
  tree. A token string decodes to a header, of which the declared algorithm is kept, and
  a claim set. The decoding of the three segments and the signature check itself stay
  parameters of the validator: \<open>parse\<close> gives the decoded token, or \<open>None\<close> for a string
  that is not a well-formed token, and \<open>sig_ok a tok key\<close> tells whether the signature of
  \<open>tok\<close> verifies under \<open>key\<close> with algorithm \<open>a\<close>.
  A header that declares no algorithm has the empty name.
\<close>

record jose =
  alg :: string
  claims :: payload

text \<open>
  Modelled from the spec: the audience match of the Claims Validator (section 4.2), done
  inside the JWT library. The audience claim is one string, which must be the expected
  audience, or a collection, of which the expected audience must be a member.
\<close>

fun audience_matches :: "string \<Rightarrow> json \<Rightarrow> bool" where
  "audience_matches a (JStr s) = (s = a)"
| "audience_matches a (JList xs) = (JStr a \<in> set xs)"
| "audience_matches a _ = False"

text \<open>
  Modelled from the spec: the Claims Validator of the design (section 4.2), which the
  verifiers reach through the JWT library's \<^verbatim>\<open>jwt.decode\<close>; the library is not part of
  the source tree. A token that does not parse, or that declares an algorithm outside the
  accepted list, is malformed; every required claim must be present, whatever the
  signature; the signature is verified; the issuer claim must equal the expected issuer;
  the expected audience must be the audience claim or a member of it; and the token is
  expired when the current time is at or after the expiry claim, with no leeway. An
  expiry claim that is not a number of seconds makes the token malformed. The arguments
  after the token and key are those of the call in \<^verbatim>\<open>verify_token\<close>: the accepted
  algorithms, the expected issuer and audience, and the \<^verbatim>\<open>require\<close> option.
\<close>

definition validate ::
  "(string \<Rightarrow> jose option) \<Rightarrow> (string \<Rightarrow> string \<Rightarrow> signing_key \<Rightarrow> bool) \<Rightarrow> int \<Rightarrow>
   string \<Rightarrow> signing_key \<Rightarrow> string list \<Rightarrow> string \<Rightarrow> string \<Rightarrow> string list \<Rightarrow> failure + payload" where
  "validate parse sig_ok now tok key algs iss aud require =
     (case parse tok of
        None \<Rightarrow> Inl MalformedToken
      | Some j \<Rightarrow>
          if alg j \<notin> set algs then Inl MalformedToken
          else (case filter (\<lambda>c. map_of (claims j) c = None) require of
             c # cs \<Rightarrow> Inl (MissingClaim c)
           | [] \<Rightarrow>
               if \<not> sig_ok (alg j) tok key then Inl InvalidSignature
               else if map_of (claims j) ''iss'' \<noteq> Some (JStr iss) then Inl IssuerMismatch
               else if \<not> (case map_of (claims j) ''aud'' of
                             None \<Rightarrow> False | Some v \<Rightarrow> audience_matches aud v)
                 then Inl AudienceMismatch
               else (case map_of (claims j) ''exp'' of
                  None \<Rightarrow> Inr (claims j)
                | Some (JInt e) \<Rightarrow> if e \<le> now then Inl TokenExpired else Inr (claims j)
                | Some _ \<Rightarrow> Inl MalformedToken)))"

text \<open>
  Modelled from the spec: the JWT library as the verifiers see it at time \<open>now\<close>. The key
  resolver (section 4.1, the library's JWKS client) stays a parameter; \<^verbatim>\<open>jwt.decode\<close> is
  the validator above.
\<close>

definition jwt_at ::
  "(string \<Rightarrow> string \<Rightarrow> failure + signing_key) \<Rightarrow> (string \<Rightarrow> jose option) \<Rightarrow>
   (string \<Rightarrow> string \<Rightarrow> signing_key \<Rightarrow> bool) \<Rightarrow> int \<Rightarrow> jwt_library" where
  "jwt_at resolve parse sig_ok now =
     \<lparr>get_signing_key_from_jwt = resolve, decode = validate parse sig_ok now\<rparr>"

subsection \<open>Fixtures for concrete runs\<close>

text \<open>A library whose two calls have fixed outcomes.\<close>

definition fixed_library :: "failure + signing_key \<Rightarrow> failure + payload \<Rightarrow> jwt_library" where
  "fixed_library k d =
     \<lparr>get_signing_key_from_jwt = (\<lambda>url tok. k), decode = (\<lambda>tok key algs iss aud req. d)\<rparr>"

text \<open>A resolver that knows one key, a decoder that knows one token, and a signature
  check under which exactly that key verifies.\<close>

definition resolve_one :: "signing_key \<Rightarrow> string \<Rightarrow> string \<Rightarrow> failure + signing_key" where
  "resolve_one k url tok = Inr k"

definition parse_one :: "string \<Rightarrow> jose \<Rightarrow> string \<Rightarrow> jose option" where
  "parse_one t j s = (if s = t then Some j else None)"

definition signed_by :: "signing_key \<Rightarrow> string \<Rightarrow> string \<Rightarrow> signing_key \<Rightarrow> bool" where
  "signed_by k a tok key = (key = k)"

definition tenant_claims :: "int \<Rightarrow> payload" where
  "tenant_claims e =
     [(''iss'', JStr ''https://tenant.example/''), (''aud'', JStr ''api''),
      (''sub'', JStr ''auth0|abc123''), (''exp'', JInt e), (''scope'', JStr ''read write'')]"

definition okta_claims :: "int \<Rightarrow> payload" where
  "okta_claims e =
     [(''iss'', JStr ''https://tenant.example/oauth2/default''), (''aud'', JStr ''api''),
      (''sub'', JStr ''user@example.com''), (''cid'', JStr ''0oaXYZ''), (''exp'', JInt e),
      (''scp'', JList [JStr ''read'', JStr ''write''])]"

text \<open>The library at time \<open>now\<close> in a world with one key and one token \<^verbatim>\<open>x.y.z\<close>, which
  declares the algorithm \<open>a\<close>, carries the claims \<open>cl\<close> and is signed with \<open>signer\<close>.\<close>

definition one_token_library :: "string \<Rightarrow> payload \<Rightarrow> signing_key \<Rightarrow> int \<Rightarrow> jwt_library" where
  "one_token_library a cl signer now =
     jwt_at (resolve_one ''key-1'') (parse_one ''x.y.z'' \<lparr>alg = a, claims = cl\<rparr>)
       (signed_by signer) now"

section \<open>Properties\<close>

subsection \<open>Helper lemmas\<close>

lemma except_clauses_None: "except_clauses e = Inr None"
  by (simp add: except_clauses_def)

lemma str_items_map_JStr: "str_items (map JStr xs) = Some xs"
  by (induction xs) simp_all

lemma str_items_SomeD: "str_items xs = Some ss \<Longrightarrow> xs = map JStr ss"
proof (induction xs arbitrary: ss rule: str_items.induct)
  case 1
  then show ?case by simp
next
  case (2 s xs)
  then show ?case by (auto split: option.splits)
qed simp_all

lemma split_words_Nil: "split_words [] [] = []"
  by simp

lemma str_split_Nil: "str_split [] = []"
  by (simp add: str_split_def)

lemma auth0_verify_token_cases:
  "auth0_verify_token lib self tok =
     (case auth0_try lib self tok of Inl e \<Rightarrow> Inr None | Inr g \<Rightarrow> Inr (Some g))"
  by (simp add: auth0_verify_token_def except_clauses_None split: sum.splits)

lemma okta_verify_token_cases:
  "okta_verify_token lib self tok =
     (case okta_try lib self tok of Inl e \<Rightarrow> Inr None | Inr g \<Rightarrow> Inr (Some g))"
  by (simp add: okta_verify_token_def except_clauses_None split: sum.splits)

lemma auth0_try_resolve_fails:
  "get_signing_key_from_jwt lib (uri (jwks_client self)) tok = Inl e \<Longrightarrow>
   auth0_try lib self tok = Inl e"
  by (simp add: auth0_try_def)

lemma okta_try_resolve_fails:
  "get_signing_key_from_jwt lib (uri (jwks_client self)) tok = Inl e \<Longrightarrow>
   okta_try lib self tok = Inl e"
  by (simp add: okta_try_def)

lemma auth0_try_decode_fails:
  "get_signing_key_from_jwt lib (uri (jwks_client self)) tok = Inr k \<Longrightarrow>
   decode lib tok k (algorithms self) (issuer self) (audience self)
     [''exp'', ''iss'', ''aud'', ''sub''] = Inl e \<Longrightarrow>
   auth0_try lib self tok = Inl e"
  by (simp add: auth0_try_def)

lemma okta_try_decode_fails:
  "get_signing_key_from_jwt lib (uri (jwks_client self)) tok = Inr k \<Longrightarrow>
   decode lib tok k (algorithms self) (issuer self) (audience self)
     [''exp'', ''iss'', ''aud'', ''sub''] = Inl e \<Longrightarrow>
   okta_try lib self tok = Inl e"
  by (simp add: okta_try_def)

lemma concat_split_words:
  "concat (split_words w s) = w @ filter (\<lambda>c. \<not> isspace c) s"
  by (induction w s rule: split_words.induct) simp_all

lemma split_words_clean:
  "list_all (\<lambda>c. \<not> isspace c) w \<Longrightarrow>
   list_all (\<lambda>x. x \<noteq> [] \<and> list_all (\<lambda>c. \<not> isspace c) x) (split_words w s)"
  by (induction w s rule: split_words.induct) simp_all

lemma str_split_words:
  "concat (str_split s) = filter (\<lambda>c. \<not> isspace c) s
   \<and> list_all (\<lambda>x. x \<noteq> [] \<and> list_all (\<lambda>c. \<not> isspace c) x) (str_split s)"
  by (simp add: str_split_def concat_split_words split_words_clean)

lemma auth0_try_decoded:
  assumes "get_signing_key_from_jwt lib (uri (jwks_client self)) tok = Inr k"
    and "decode lib tok k (algorithms self) (issuer self) (audience self)
           [''exp'', ''iss'', ''aud'', ''sub''] = Inr pl"
  shows "auth0_try lib self tok = auth0_grant tok pl"
  using assms by (simp add: auth0_try_def)

lemma okta_try_decoded:
  assumes "get_signing_key_from_jwt lib (uri (jwks_client self)) tok = Inr k"
    and "decode lib tok k (algorithms self) (issuer self) (audience self)
           [''exp'', ''iss'', ''aud'', ''sub''] = Inr pl"
  shows "okta_try lib self tok = okta_grant tok pl"
  using assms by (simp add: okta_try_def)

lemma auth0_try_InrD:
  assumes "auth0_try lib self tok = Inr g"
  shows "\<exists>k pl. get_signing_key_from_jwt lib (uri (jwks_client self)) tok = Inr k
           \<and> decode lib tok k (algorithms self) (issuer self) (audience self)
                [''exp'', ''iss'', ''aud'', ''sub''] = Inr pl
           \<and> auth0_grant tok pl = Inr g"
  using assms by (auto simp: auth0_try_def split: sum.splits)

lemma okta_try_InrD:
  assumes "okta_try lib self tok = Inr g"
  shows "\<exists>k pl. get_signing_key_from_jwt lib (uri (jwks_client self)) tok = Inr k
           \<and> decode lib tok k (algorithms self) (issuer self) (audience self)
                [''exp'', ''iss'', ''aud'', ''sub''] = Inr pl
           \<and> okta_grant tok pl = Inr g"
  using assms by (auto simp: okta_try_def split: sum.splits)

lemma auth0_verify_token_SomeD:
  "auth0_verify_token lib self tok = Inr (Some g) \<Longrightarrow> auth0_try lib self tok = Inr g"
  by (simp add: auth0_verify_token_cases split: sum.splits)

lemma okta_verify_token_SomeD:
  "okta_verify_token lib self tok = Inr (Some g) \<Longrightarrow> okta_try lib self tok = Inr g"
  by (simp add: okta_verify_token_cases split: sum.splits)

lemma AccessToken_valid:
  "as_str cid = Some c \<Longrightarrow> as_optional_int exp = Some ex \<Longrightarrow>
   AccessToken tok cid (JList (map JStr ss)) exp
     = Inr \<lparr>token = tok, client_id = c, scopes = ss, expires_at = ex\<rparr>"
  by (simp add: AccessToken_def str_items_map_JStr)

lemma AccessToken_InrD:
  assumes "AccessToken tok cid scs exp = Inr g"
  shows "token g = tok \<and> as_str cid = Some (client_id g)
         \<and> as_str_list scs = Some (scopes g) \<and> as_optional_int exp = Some (expires_at g)"
  using assms by (auto simp: AccessToken_def split: option.splits)

lemma as_str_SomeD: "as_str v = Some c \<Longrightarrow> v = JStr c"
  by (cases v) simp_all

lemma auth0_grant_scope_string:
  assumes "map_of pl ''scope'' = Some (JStr s)"
    and "as_str (dict_get pl ''sub'' (JStr ''unknown'')) = Some c"
    and "as_optional_int (dict_get pl ''exp'' JNull) = Some ex"
  shows "auth0_grant tok pl
     = Inr \<lparr>token = tok, client_id = c, scopes = str_split s, expires_at = ex\<rparr>"
proof -
  have sc: "dict_get pl ''scope'' (JStr []) = JStr s"
    using assms(1) by (simp add: dict_get_def)
  show ?thesis
  proof (cases "s = []")
    case True
    then show ?thesis
      using AccessToken_valid [OF assms(2,3), of tok "[]"]
      by (simp add: auth0_grant_def sc str_split_Nil)
  next
    case False
    then show ?thesis
      using AccessToken_valid [OF assms(2,3), of tok "str_split s"]
      by (simp add: auth0_grant_def sc)
  qed
qed

lemma auth0_grant_scope_absent:
  assumes "map_of pl ''scope'' = None"
    and "as_str (dict_get pl ''sub'' (JStr ''unknown'')) = Some c"
    and "as_optional_int (dict_get pl ''exp'' JNull) = Some ex"
  shows "auth0_grant tok pl
     = Inr \<lparr>token = tok, client_id = c, scopes = [], expires_at = ex\<rparr>"
proof -
  have sc: "dict_get pl ''scope'' (JStr []) = JStr []"
    using assms(1) by (simp add: dict_get_def)
  show ?thesis
    using AccessToken_valid [OF assms(2,3), of tok "[]"]
    by (simp add: auth0_grant_def sc)
qed

lemma okta_grant_scp:
  assumes "map_of pl ''scp'' = Some (JStr s) \<and> ss = str_split s
         \<or> map_of pl ''scp'' = Some (JList (map JStr ss))
         \<or> map_of pl ''scp'' = None \<and> ss = []"
    and "as_str (dict_get pl ''cid'' (dict_get pl ''sub'' (JStr ''unknown''))) = Some c"
    and "as_optional_int (dict_get pl ''exp'' JNull) = Some ex"
  shows "okta_grant tok pl
     = Inr \<lparr>token = tok, client_id = c, scopes = ss, expires_at = ex\<rparr>"
proof -
  have "(case dict_get pl ''scp'' (JList []) of
          JStr s \<Rightarrow> JList (map JStr (str_split s))
        | _ \<Rightarrow> dict_get pl ''scp'' (JList [])) = JList (map JStr ss)"
    using assms(1) by (auto simp: dict_get_def)
  then show ?thesis
    using AccessToken_valid [OF assms(2,3), of tok ss]
    by (simp add: okta_grant_def)
qed

lemma auth0_grant_InrD:
  assumes "auth0_grant tok pl = Inr g"
  shows "token g = tok
         \<and> dict_get pl ''sub'' (JStr ''unknown'') = JStr (client_id g)
         \<and> as_optional_int (dict_get pl ''exp'' JNull) = Some (expires_at g)"
  using assms
  by (auto simp: auth0_grant_def Let_def split: sum.splits if_splits
           dest!: AccessToken_InrD dest: as_str_SomeD)

lemma okta_grant_InrD:
  assumes "okta_grant tok pl = Inr g"
  shows "token g = tok
         \<and> dict_get pl ''cid'' (dict_get pl ''sub'' (JStr ''unknown'')) = JStr (client_id g)
         \<and> as_optional_int (dict_get pl ''exp'' JNull) = Some (expires_at g)"
  using assms
  by (auto simp: okta_grant_def Let_def dest!: AccessToken_InrD dest: as_str_SomeD)

lemma AccessToken_bad_client:
  "as_str cid = None \<Longrightarrow>
   AccessToken tok cid scs exp = Inl (InternalError ''ValidationError'')"
  by (simp add: AccessToken_def)

lemma auth0_grant_bad_client:
  assumes "as_str (dict_get pl ''sub'' (JStr ''unknown'')) = None"
  shows "\<exists>e. auth0_grant tok pl = Inl e"
  using assms
  by (auto simp: auth0_grant_def Let_def AccessToken_bad_client split: sum.splits)

lemma okta_grant_bad_client:
  assumes "as_str (dict_get pl ''cid'' (dict_get pl ''sub'' (JStr ''unknown''))) = None"
  shows "okta_grant tok pl = Inl (InternalError ''ValidationError'')"
  using assms by (simp add: okta_grant_def Let_def AccessToken_bad_client)

subsection \<open>Lemmas on the claims validator\<close>

lemma validate_InrD:
  assumes "validate parse sig_ok now tok key algs iss aud require = Inr pl"
  shows "\<exists>j. parse tok = Some j \<and> pl = claims j \<and> alg j \<in> set algs
           \<and> (\<forall>c\<in>set require. map_of (claims j) c \<noteq> None)
           \<and> sig_ok (alg j) tok key
           \<and> map_of (claims j) ''iss'' = Some (JStr iss)
           \<and> (\<exists>v. map_of (claims j) ''aud'' = Some v \<and> audience_matches aud v)
           \<and> (map_of (claims j) ''exp'' = None
               \<or> (\<exists>e. map_of (claims j) ''exp'' = Some (JInt e) \<and> now < e))"
  using assms
  by (auto simp: validate_def filter_empty_conv
           split: option.splits if_splits list.splits json.splits)

lemma validate_required:
  assumes "validate parse sig_ok now tok key algs iss aud require = Inr pl"
    and "c \<in> set require"
  shows "map_of pl c \<noteq> None"
proof -
  from validate_InrD [OF assms(1)] obtain j :: jose where
    "pl = claims j" and "\<forall>c\<in>set require. map_of (claims j) c \<noteq> None"
    by blast
  with assms(2) show ?thesis by blast
qed


lemma validate_alg_rejected:
  assumes "parse tok = Some j" and "alg j \<notin> set algs"
  shows "validate parse sig_ok now tok key algs iss aud require = Inl MalformedToken"
  using assms by (simp add: validate_def)

lemma validate_missing_rejected:
  assumes "parse tok = Some j" and "c \<in> set require" and "map_of (claims j) c = None"
  shows "\<exists>e. validate parse sig_ok now tok key algs iss aud require = Inl e"
proof (cases "validate parse sig_ok now tok key algs iss aud require")
  case (Inl e)
  then show ?thesis by blast
next
  case (Inr pl)
  from validate_InrD [OF Inr] assms(1) have "pl = claims j" by auto
  with validate_required [OF Inr assms(2)] assms(3) show ?thesis by simp
qed

lemma auth0_try_jwt_at:
  "auth0_try (jwt_at resolve parse sig_ok now) self tok =
     (case resolve (uri (jwks_client self)) tok of
        Inl e \<Rightarrow> Inl e
      | Inr k \<Rightarrow>
         (case validate parse sig_ok now tok k (algorithms self) (issuer self) (audience self)
                 [''exp'', ''iss'', ''aud'', ''sub''] of
            Inl e \<Rightarrow> Inl e
          | Inr pl \<Rightarrow> auth0_grant tok pl))"
  by (simp add: auth0_try_def jwt_at_def split: sum.splits)

lemma okta_try_jwt_at:
  "okta_try (jwt_at resolve parse sig_ok now) self tok =
     (case resolve (uri (jwks_client self)) tok of
        Inl e \<Rightarrow> Inl e
      | Inr k \<Rightarrow>
         (case validate parse sig_ok now tok k (algorithms self) (issuer self) (audience self)
                 [''exp'', ''iss'', ''aud'', ''sub''] of
            Inl e \<Rightarrow> Inl e
          | Inr pl \<Rightarrow> okta_grant tok pl))"
  by (simp add: okta_try_def jwt_at_def split: sum.splits)

lemma auth0_try_jwt_at_InrD:
  assumes "auth0_try (jwt_at resolve parse sig_ok now) self tok = Inr g"
  shows "\<exists>k pl. resolve (uri (jwks_client self)) tok = Inr k
           \<and> validate parse sig_ok now tok k (algorithms self) (issuer self) (audience self)
                [''exp'', ''iss'', ''aud'', ''sub''] = Inr pl
           \<and> auth0_grant tok pl = Inr g"
  using assms by (auto simp: auth0_try_jwt_at split: sum.splits)

lemma okta_try_jwt_at_InrD:
  assumes "okta_try (jwt_at resolve parse sig_ok now) self tok = Inr g"
  shows "\<exists>k pl. resolve (uri (jwks_client self)) tok = Inr k
           \<and> validate parse sig_ok now tok k (algorithms self) (issuer self) (audience self)
                [''exp'', ''iss'', ''aud'', ''sub''] = Inr pl
           \<and> okta_grant tok pl = Inr g"
  using assms by (auto simp: okta_try_jwt_at split: sum.splits)


subsection \<open>Uniform rejection\<close>

text \<open>
  C1. Whatever the token and whatever the library calls do, \<^verbatim>\<open>verify_token\<close> returns a
  value and never an exception. Every failure of the \<^verbatim>\<open>try\<close> block gives the same result
  \<^verbatim>\<open>None\<close>: a failure of the key resolver (key fetch failure, unknown key-id), a failure
  of \<^verbatim>\<open>jwt.decode\<close> (malformed or expired token, issuer or audience mismatch, missing
  claim), and any other error raised while the grant is built. This holds for both
  verifiers.
\<close>

theorem verify_token_uniform_rejection:
  "(\<exists>r. auth0_verify_token lib self tok = Inr r)
   \<and> (\<exists>r. okta_verify_token lib self tok = Inr r)
   \<and> (\<forall>e. auth0_try lib self tok = Inl e \<longrightarrow> auth0_verify_token lib self tok = Inr None)
   \<and> (\<forall>e. okta_try lib self tok = Inl e \<longrightarrow> okta_verify_token lib self tok = Inr None)
   \<and> (\<forall>e. get_signing_key_from_jwt lib (uri (jwks_client self)) tok = Inl e \<longrightarrow>
          auth0_verify_token lib self tok = Inr None
          \<and> okta_verify_token lib self tok = Inr None)
   \<and> (\<forall>k e. get_signing_key_from_jwt lib (uri (jwks_client self)) tok = Inr k
            \<and> decode lib tok k (algorithms self) (issuer self) (audience self)
                 [''exp'', ''iss'', ''aud'', ''sub''] = Inl e \<longrightarrow>
          auth0_verify_token lib self tok = Inr None
          \<and> okta_verify_token lib self tok = Inr None)"
proof -
  have a: "\<exists>r. auth0_verify_token lib self tok = Inr r"
    by (simp add: auth0_verify_token_cases split: sum.splits)
  have b: "\<exists>r. okta_verify_token lib self tok = Inr r"
    by (simp add: okta_verify_token_cases split: sum.splits)
  have c: "auth0_verify_token lib self tok = Inr None" if "auth0_try lib self tok = Inl e" for e
    using that by (simp add: auth0_verify_token_cases)
  have d: "okta_verify_token lib self tok = Inr None" if "okta_try lib self tok = Inl e" for e
    using that by (simp add: okta_verify_token_cases)
  have e: "auth0_verify_token lib self tok = Inr None \<and> okta_verify_token lib self tok = Inr None"
    if "get_signing_key_from_jwt lib (uri (jwks_client self)) tok = Inl e" for e
    using c [OF auth0_try_resolve_fails [OF that]] d [OF okta_try_resolve_fails [OF that]]
    by simp
  have f: "auth0_verify_token lib self tok = Inr None \<and> okta_verify_token lib self tok = Inr None"
    if "get_signing_key_from_jwt lib (uri (jwks_client self)) tok = Inr k"
      and "decode lib tok k (algorithms self) (issuer self) (audience self)
             [''exp'', ''iss'', ''aud'', ''sub''] = Inl e" for k e
    using c [OF auth0_try_decode_fails [OF that]] d [OF okta_try_decode_fails [OF that]]
    by simp
  from a b c d e f show ?thesis by blast
qed

theorem verify_token_uniform_rejection_witness:
  "auth0_verify_token (fixed_library (Inl FetchFailure) (Inr []))
      (Auth0TokenVerifier ''t.example'' ''api'') ''x.y.z'' = Inr None
   \<and> okta_verify_token (fixed_library (Inr ''key-1'') (Inl TokenExpired))
      (OktaTokenVerifier ''t.example'' ''api'' ''default'') ''x.y.z'' = Inr None
   \<and> auth0_try (fixed_library (Inr ''key-1'')
          (Inr [(''scope'', JList [JStr ''read'']), (''sub'', JStr ''auth0|abc123'')]))
        (Auth0TokenVerifier ''t.example'' ''api'') ''x.y.z''
      = Inl (InternalError ''AttributeError'')
   \<and> auth0_verify_token (fixed_library (Inr ''key-1'')
          (Inr [(''scope'', JList [JStr ''read'']), (''sub'', JStr ''auth0|abc123'')]))
        (Auth0TokenVerifier ''t.example'' ''api'') ''x.y.z'' = Inr None"
  using verify_token_uniform_rejection
          [of "fixed_library (Inl FetchFailure) (Inr [])"
              "Auth0TokenVerifier ''t.example'' ''api''" "''x.y.z''"]
        verify_token_uniform_rejection
          [of "fixed_library (Inr ''key-1'') (Inl TokenExpired)"
              "OktaTokenVerifier ''t.example'' ''api'' ''default''" "''x.y.z''"]
        verify_token_uniform_rejection
          [of "fixed_library (Inr ''key-1'')
                 (Inr [(''scope'', JList [JStr ''read'']), (''sub'', JStr ''auth0|abc123'')])"
              "Auth0TokenVerifier ''t.example'' ''api''" "''x.y.z''"]
  by (simp add: fixed_library_def auth0_try_def auth0_grant_def dict_get_def)

subsection \<open>The mapping from claims to the grant\<close>



text \<open>
  C7, as stated, fails: a token can pass every validation check and still yield no
  grant. No check looks at the \<^verbatim>\<open>cid\<close> claim, and the \<^verbatim>\<open>AccessToken\<close> takes a string
  as its client. With the claims \<^verbatim>\<open>{"scp": ["read","write"], "cid": 7, ...}\<close> the
  validator returns the payload, and so does any library whose \<^verbatim>\<open>jwt.decode\<close> returns
  it, yet the Okta verifier returns \<^verbatim>\<open>None\<close>.
\<close>

theorem okta_grant_mapping_counterexample:
  "validate
     (parse_one ''x.y.z'' \<lparr>alg = ''RS256'', claims =
        [(''iss'', JStr ''https://tenant.example/oauth2/default''), (''aud'', JStr ''api''),
         (''sub'', JStr ''user-7''), (''cid'', JInt 7), (''exp'', JInt 2000),
         (''scp'', JList [JStr ''read'', JStr ''write''])]\<rparr>)
     (signed_by ''key-1'') 1000 ''x.y.z'' ''key-1'' [''RS256'']
     ''https://tenant.example/oauth2/default'' ''api'' [''exp'', ''iss'', ''aud'', ''sub'']
   = Inr [(''iss'', JStr ''https://tenant.example/oauth2/default''), (''aud'', JStr ''api''),
          (''sub'', JStr ''user-7''), (''cid'', JInt 7), (''exp'', JInt 2000),
          (''scp'', JList [JStr ''read'', JStr ''write''])]
   \<and> okta_verify_token
     (one_token_library ''RS256''
        [(''iss'', JStr ''https://tenant.example/oauth2/default''), (''aud'', JStr ''api''),
         (''sub'', JStr ''user-7''), (''cid'', JInt 7), (''exp'', JInt 2000),
         (''scp'', JList [JStr ''read'', JStr ''write''])]
        ''key-1'' 1000)
     (OktaTokenVerifier ''tenant.example'' ''api'' ''default'') ''x.y.z'' = Inr None
   \<and> okta_verify_token
     (fixed_library (Inr ''key-1'')
        (Inr [(''scp'', JList [JStr ''read'', JStr ''write'']), (''cid'', JInt 7),
              (''exp'', JInt 2000000000)]))
     (OktaTokenVerifier ''tenant.example'' ''api'' ''default'') ''x.y.z'' = Inr None"
  by (simp add: okta_verify_token_def okta_try_def okta_grant_def AccessToken_def
        except_clauses_def one_token_library_def jwt_at_def validate_def fixed_library_def
        resolve_one_def parse_one_def signed_by_def OktaTokenVerifier_def dict_get_def)

text \<open>
  C7, amended. Okta: when the key is resolved and \<^verbatim>\<open>jwt.decode\<close> returns a payload
  whose \<^verbatim>\<open>scp\<close> claim is a list of strings or one string, whose client claim (\<^verbatim>\<open>cid\<close>
  when present, else \<^verbatim>\<open>sub\<close>) is a string and whose expiry is an integer or absent,
  the scopes of the grant are the \<^verbatim>\<open>scp\<close> claim, as it is when it is a list of strings
  and split at whitespace when it is one string, and the client is the \<^verbatim>\<open>cid\<close> claim,
  else the \<^verbatim>\<open>sub\<close> claim, else \<^verbatim>\<open>"unknown"\<close>. A payload whose \<^verbatim>\<open>cid\<close> claim is
  present and not a string yields no grant: the verifier returns \<^verbatim>\<open>None\<close>. The concrete
  case of the claim, \<^verbatim>\<open>{"scp": ["read","write"], "cid": "0oaXYZ", "exp": future}\<close>, is
  the first part of the witness below.
\<close>

theorem okta_grant_mapping:
  assumes "get_signing_key_from_jwt lib (uri (jwks_client self)) tok = Inr k"
    and "decode lib tok k (algorithms self) (issuer self) (audience self)
           [''exp'', ''iss'', ''aud'', ''sub''] = Inr pl"
  shows "((map_of pl ''scp'' = Some (JList (map JStr ss))
            \<or> map_of pl ''scp'' = Some (JStr s) \<and> ss = str_split s)
          \<and> (map_of pl ''cid'' = Some (JStr c)
            \<or> map_of pl ''cid'' = None \<and> map_of pl ''sub'' = Some (JStr c)
            \<or> map_of pl ''cid'' = None \<and> map_of pl ''sub'' = None \<and> c = ''unknown'')
          \<and> as_optional_int (dict_get pl ''exp'' JNull) = Some ex \<longrightarrow>
          okta_verify_token lib self tok
            = Inr (Some \<lparr>token = tok, client_id = c, scopes = ss, expires_at = ex\<rparr>))
       \<and> (map_of pl ''cid'' = Some v \<and> as_str v = None \<longrightarrow>
          okta_verify_token lib self tok = Inr None)"
proof (intro conjI impI)
  assume h: "(map_of pl ''scp'' = Some (JList (map JStr ss))
            \<or> map_of pl ''scp'' = Some (JStr s) \<and> ss = str_split s)
          \<and> (map_of pl ''cid'' = Some (JStr c)
            \<or> map_of pl ''cid'' = None \<and> map_of pl ''sub'' = Some (JStr c)
            \<or> map_of pl ''cid'' = None \<and> map_of pl ''sub'' = None \<and> c = ''unknown'')
          \<and> as_optional_int (dict_get pl ''exp'' JNull) = Some ex"
  have scp: "map_of pl ''scp'' = Some (JStr s) \<and> ss = str_split s
         \<or> map_of pl ''scp'' = Some (JList (map JStr ss))
         \<or> map_of pl ''scp'' = None \<and> ss = []"
    using h by blast
  have cid: "as_str (dict_get pl ''cid'' (dict_get pl ''sub'' (JStr ''unknown''))) = Some c"
    using h by (auto simp: dict_get_def)
  have ex: "as_optional_int (dict_get pl ''exp'' JNull) = Some ex"
    using h by blast
  from okta_grant_scp [OF scp cid ex]
  show "okta_verify_token lib self tok
          = Inr (Some \<lparr>token = tok, client_id = c, scopes = ss, expires_at = ex\<rparr>)"
    by (simp add: okta_verify_token_cases okta_try_decoded [OF assms])
next
  assume "map_of pl ''cid'' = Some v \<and> as_str v = None"
  then have "as_str (dict_get pl ''cid'' (dict_get pl ''sub'' (JStr ''unknown''))) = None"
    by (simp add: dict_get_def)
  from okta_grant_bad_client [OF this, of tok]
  show "okta_verify_token lib self tok = Inr None"
    by (simp add: okta_verify_token_cases okta_try_decoded [OF assms])
qed

theorem okta_grant_mapping_witness:
  "okta_verify_token
     (fixed_library (Inr ''key-1'')
        (Inr [(''scp'', JList [JStr ''read'', JStr ''write'']), (''cid'', JStr ''0oaXYZ''),
              (''exp'', JInt 2000000000)]))
     (OktaTokenVerifier ''tenant.example'' ''api'' ''default'') ''x.y.z''
   = Inr (Some \<lparr>token = ''x.y.z'', client_id = ''0oaXYZ'',
                 scopes = [''read'', ''write''], expires_at = Some 2000000000\<rparr>)
   \<and> okta_verify_token
     (fixed_library (Inr ''key-1'')
        (Inr [(''scp'', JStr ''read  write''), (''sub'', JStr ''user-7''),
              (''exp'', JInt 2000000000)]))
     (OktaTokenVerifier ''tenant.example'' ''api'' ''default'') ''x.y.z''
   = Inr (Some \<lparr>token = ''x.y.z'', client_id = ''user-7'',
                 scopes = [''read'', ''write''], expires_at = Some 2000000000\<rparr>)
   \<and> okta_verify_token
     (fixed_library (Inr ''key-1'')
        (Inr [(''scp'', JList [JStr ''read'']), (''exp'', JInt 2000000000)]))
     (OktaTokenVerifier ''tenant.example'' ''api'' ''default'') ''x.y.z''
   = Inr (Some \<lparr>token = ''x.y.z'', client_id = ''unknown'',
                 scopes = [''read''], expires_at = Some 2000000000\<rparr>)
   \<and> okta_verify_token
     (fixed_library (Inr ''key-1'')
        (Inr [(''scp'', JList [JStr ''read'', JStr ''write'']), (''cid'', JInt 7),
              (''exp'', JInt 2000000000)]))
     (OktaTokenVerifier ''tenant.example'' ''api'' ''default'') ''x.y.z'' = Inr None"
  using okta_grant_mapping
     [where lib = "fixed_library (Inr ''key-1'')
            (Inr [(''scp'', JList [JStr ''read'', JStr ''write'']), (''cid'', JStr ''0oaXYZ''),
                  (''exp'', JInt 2000000000)])"
        and self = "OktaTokenVerifier ''tenant.example'' ''api'' ''default''"
        and tok = "''x.y.z''" and k = "''key-1''"
        and pl = "[(''scp'', JList [JStr ''read'', JStr ''write'']), (''cid'', JStr ''0oaXYZ''),
           (''exp'', JInt 2000000000)]"
        and ss = "[''read'', ''write'']" and s = "[]" and c = "''0oaXYZ''"
        and ex = "Some 2000000000" and v = "JStr ''0oaXYZ''"]
    okta_grant_mapping
     [where lib = "fixed_library (Inr ''key-1'')
            (Inr [(''scp'', JStr ''read  write''), (''sub'', JStr ''user-7''),
                  (''exp'', JInt 2000000000)])"
        and self = "OktaTokenVerifier ''tenant.example'' ''api'' ''default''"
        and tok = "''x.y.z''" and k = "''key-1''"
        and pl = "[(''scp'', JStr ''read  write''), (''sub'', JStr ''user-7''),
           (''exp'', JInt 2000000000)]"
        and ss = "[''read'', ''write'']" and s = "''read  write''" and c = "''user-7''"
        and ex = "Some 2000000000" and v = "JNull"]
    okta_grant_mapping
     [where lib = "fixed_library (Inr ''key-1'')
            (Inr [(''scp'', JList [JStr ''read'']), (''exp'', JInt 2000000000)])"
        and self = "OktaTokenVerifier ''tenant.example'' ''api'' ''default''"
        and tok = "''x.y.z''" and k = "''key-1''"
        and pl = "[(''scp'', JList [JStr ''read'']), (''exp'', JInt 2000000000)]"
        and ss = "[''read'']" and s = "[]" and c = "''unknown''"
        and ex = "Some 2000000000" and v = "JNull"]
    okta_grant_mapping
     [where lib = "fixed_library (Inr ''key-1'')
            (Inr [(''scp'', JList [JStr ''read'', JStr ''write'']), (''cid'', JInt 7),
                  (''exp'', JInt 2000000000)])"
        and self = "OktaTokenVerifier ''tenant.example'' ''api'' ''default''"
        and tok = "''x.y.z''" and k = "''key-1''"
        and pl = "[(''scp'', JList [JStr ''read'', JStr ''write'']), (''cid'', JInt 7),
           (''exp'', JInt 2000000000)]"
        and ss = "[]" and s = "[]" and c = "[]"
        and ex = "None" and v = "JInt 7"]
  by (simp add: fixed_library_def dict_get_def str_split_def isspace_def)

text \<open>
  C8, as stated, fails: a token can pass every validation check, carry no scope claim,
  and be rejected all the same. With the claims \<^verbatim>\<open>{"cid": 7, ...}\<close> and no \<^verbatim>\<open>scp\<close> claim
  the validator returns the payload, and so does any library whose \<^verbatim>\<open>jwt.decode\<close>
  returns it, yet the Okta verifier returns \<^verbatim>\<open>None\<close>, since the \<^verbatim>\<open>AccessToken\<close> takes a
  string as its client.
\<close>

theorem missing_scope_claim_counterexample:
  "validate
     (parse_one ''x.y.z'' \<lparr>alg = ''RS256'', claims =
        [(''iss'', JStr ''https://tenant.example/oauth2/default''), (''aud'', JStr ''api''),
         (''sub'', JStr ''user-7''), (''cid'', JInt 7), (''exp'', JInt 2000)]\<rparr>)
     (signed_by ''key-1'') 1000 ''x.y.z'' ''key-1'' [''RS256'']
     ''https://tenant.example/oauth2/default'' ''api'' [''exp'', ''iss'', ''aud'', ''sub'']
   = Inr [(''iss'', JStr ''https://tenant.example/oauth2/default''), (''aud'', JStr ''api''),
          (''sub'', JStr ''user-7''), (''cid'', JInt 7), (''exp'', JInt 2000)]
   \<and> map_of [(''iss'', JStr ''https://tenant.example/oauth2/default''), (''aud'', JStr ''api''),
          (''sub'', JStr ''user-7''), (''cid'', JInt 7), (''exp'', JInt 2000)] ''scp'' = None
   \<and> okta_verify_token
     (one_token_library ''RS256''
        [(''iss'', JStr ''https://tenant.example/oauth2/default''), (''aud'', JStr ''api''),
         (''sub'', JStr ''user-7''), (''cid'', JInt 7), (''exp'', JInt 2000)]
        ''key-1'' 1000)
     (OktaTokenVerifier ''tenant.example'' ''api'' ''default'') ''x.y.z'' = Inr None
   \<and> okta_verify_token
     (fixed_library (Inr ''key-1'')
        (Inr [(''sub'', JStr ''user-7''), (''cid'', JInt 7), (''exp'', JInt 2000000000)]))
     (OktaTokenVerifier ''tenant.example'' ''api'' ''default'') ''x.y.z'' = Inr None"
  by (simp add: okta_verify_token_def okta_try_def okta_grant_def AccessToken_def
        except_clauses_def one_token_library_def jwt_at_def validate_def fixed_library_def
        resolve_one_def parse_one_def signed_by_def OktaTokenVerifier_def dict_get_def)

text \<open>
  C8, amended. When the key is resolved and \<^verbatim>\<open>jwt.decode\<close> returns a payload with no
  scope claim (\<^verbatim>\<open>scope\<close> for Auth0, \<^verbatim>\<open>scp\<close> for Okta), whose client claim (\<^verbatim>\<open>sub\<close>
  for Auth0; \<^verbatim>\<open>cid\<close> when present, else \<^verbatim>\<open>sub\<close>, for Okta) is a string and whose
  expiry is an integer or absent, \<^verbatim>\<open>verify_token\<close> returns a grant, and the scopes of
  that grant are empty: the missing scope claim causes neither a rejection nor an error.
  A payload whose client claim is not a string yields no grant, with or without a scope
  claim: the verifier returns \<^verbatim>\<open>None\<close>.
\<close>

theorem missing_scope_claim_empty_scopes:
  assumes "get_signing_key_from_jwt lib (uri (jwks_client self)) tok = Inr k"
    and "decode lib tok k (algorithms self) (issuer self) (audience self)
           [''exp'', ''iss'', ''aud'', ''sub''] = Inr pl"
  shows "(map_of pl ''scope'' = None
          \<and> as_str (dict_get pl ''sub'' (JStr ''unknown'')) = Some c
          \<and> as_optional_int (dict_get pl ''exp'' JNull) = Some ex \<longrightarrow>
          auth0_verify_token lib self tok
            = Inr (Some \<lparr>token = tok, client_id = c, scopes = [], expires_at = ex\<rparr>))
       \<and> (map_of pl ''scp'' = None
          \<and> as_str (dict_get pl ''cid'' (dict_get pl ''sub'' (JStr ''unknown''))) = Some c'
          \<and> as_optional_int (dict_get pl ''exp'' JNull) = Some ex \<longrightarrow>
          okta_verify_token lib self tok
            = Inr (Some \<lparr>token = tok, client_id = c', scopes = [], expires_at = ex\<rparr>))
       \<and> (as_str (dict_get pl ''sub'' (JStr ''unknown'')) = None \<longrightarrow>
          auth0_verify_token lib self tok = Inr None)
       \<and> (as_str (dict_get pl ''cid'' (dict_get pl ''sub'' (JStr ''unknown''))) = None \<longrightarrow>
          okta_verify_token lib self tok = Inr None)"
proof (intro conjI impI)
  assume "map_of pl ''scope'' = None
          \<and> as_str (dict_get pl ''sub'' (JStr ''unknown'')) = Some c
          \<and> as_optional_int (dict_get pl ''exp'' JNull) = Some ex"
  then show "auth0_verify_token lib self tok
            = Inr (Some \<lparr>token = tok, client_id = c, scopes = [], expires_at = ex\<rparr>)"
    using auth0_grant_scope_absent [of pl c ex tok]
    by (simp add: auth0_verify_token_cases auth0_try_decoded [OF assms])
next
  assume "map_of pl ''scp'' = None
          \<and> as_str (dict_get pl ''cid'' (dict_get pl ''sub'' (JStr ''unknown''))) = Some c'
          \<and> as_optional_int (dict_get pl ''exp'' JNull) = Some ex"
  then show "okta_verify_token lib self tok
            = Inr (Some \<lparr>token = tok, client_id = c', scopes = [], expires_at = ex\<rparr>)"
    using okta_grant_scp [of pl "[]" "[]" c' ex tok]
    by (simp add: okta_verify_token_cases okta_try_decoded [OF assms])
next
  assume "as_str (dict_get pl ''sub'' (JStr ''unknown'')) = None"
  from auth0_grant_bad_client [OF this, of tok] obtain e where "auth0_grant tok pl = Inl e"
    by blast
  then show "auth0_verify_token lib self tok = Inr None"
    by (simp add: auth0_verify_token_cases auth0_try_decoded [OF assms])
next
  assume "as_str (dict_get pl ''cid'' (dict_get pl ''sub'' (JStr ''unknown''))) = None"
  from okta_grant_bad_client [OF this, of tok]
  show "okta_verify_token lib self tok = Inr None"
    by (simp add: okta_verify_token_cases okta_try_decoded [OF assms])
qed

theorem missing_scope_claim_empty_scopes_witness:
  "auth0_verify_token
     (fixed_library (Inr ''key-1'')
        (Inr [(''sub'', JStr ''auth0|abc123''), (''exp'', JInt 2000000000)]))
     (Auth0TokenVerifier ''tenant.example'' ''api'') ''x.y.z''
   = Inr (Some \<lparr>token = ''x.y.z'', client_id = ''auth0|abc123'', scopes = [],
                 expires_at = Some 2000000000\<rparr>)
   \<and> okta_verify_token
     (fixed_library (Inr ''key-1'')
        (Inr [(''cid'', JStr ''0oaXYZ''), (''sub'', JStr ''user-7''), (''exp'', JInt 2000000000)]))
     (OktaTokenVerifier ''tenant.example'' ''api'' ''default'') ''x.y.z''
   = Inr (Some \<lparr>token = ''x.y.z'', client_id = ''0oaXYZ'', scopes = [],
                 expires_at = Some 2000000000\<rparr>)
   \<and> okta_verify_token
     (fixed_library (Inr ''key-1'')
        (Inr [(''cid'', JInt 7), (''sub'', JStr ''user-7''), (''exp'', JInt 2000000000)]))
     (OktaTokenVerifier ''tenant.example'' ''api'' ''default'') ''x.y.z'' = Inr None"
  using missing_scope_claim_empty_scopes
     [where lib = "fixed_library (Inr ''key-1'')
            (Inr [(''sub'', JStr ''auth0|abc123''), (''exp'', JInt 2000000000)])"
        and self = "Auth0TokenVerifier ''tenant.example'' ''api''"
        and tok = "''x.y.z''" and k = "''key-1''"
        and pl = "[(''sub'', JStr ''auth0|abc123''), (''exp'', JInt 2000000000)]"
        and ex = "Some 2000000000" and c = "''auth0|abc123''" and c' = "''auth0|abc123''"]
    missing_scope_claim_empty_scopes
     [where lib = "fixed_library (Inr ''key-1'')
            (Inr [(''cid'', JStr ''0oaXYZ''), (''sub'', JStr ''user-7''),
                  (''exp'', JInt 2000000000)])"
        and self = "OktaTokenVerifier ''tenant.example'' ''api'' ''default''"
        and tok = "''x.y.z''" and k = "''key-1''"
        and pl = "[(''cid'', JStr ''0oaXYZ''), (''sub'', JStr ''user-7''),
                   (''exp'', JInt 2000000000)]"
        and ex = "Some 2000000000" and c = "''user-7''" and c' = "''0oaXYZ''"]
    missing_scope_claim_empty_scopes
     [where lib = "fixed_library (Inr ''key-1'')
            (Inr [(''cid'', JInt 7), (''sub'', JStr ''user-7''), (''exp'', JInt 2000000000)])"
        and self = "OktaTokenVerifier ''tenant.example'' ''api'' ''default''"
        and tok = "''x.y.z''" and k = "''key-1''"
        and pl = "[(''cid'', JInt 7), (''sub'', JStr ''user-7''), (''exp'', JInt 2000000000)]"
        and ex = "Some 2000000000" and c = "''user-7''" and c' = "[]"]
  by (simp add: fixed_library_def dict_get_def)

subsection \<open>Repeated scopes\<close>

text \<open>
  C2, as stated, fails: the scopes of the grant are a list and nothing removes a
  repeated entry. With the \<^verbatim>\<open>scope\<close> claim \<^verbatim>\<open>"read read"\<close> the Auth0 verifier returns
  the scopes \<^verbatim>\<open>["read", "read"]\<close>, and with the \<^verbatim>\<open>scp\<close> claim \<^verbatim>\<open>["read", "read"]\<close>
  the Okta verifier returns the same list.
\<close>

theorem scopes_duplicate_free_counterexample:
  "auth0_verify_token
     (fixed_library (Inr ''key-1'')
        (Inr [(''scope'', JStr ''read read''), (''sub'', JStr ''auth0|abc123''),
              (''exp'', JInt 2000000000)]))
     (Auth0TokenVerifier ''tenant.example'' ''api'') ''x.y.z''
   = Inr (Some \<lparr>token = ''x.y.z'', client_id = ''auth0|abc123'',
                 scopes = [''read'', ''read''], expires_at = Some 2000000000\<rparr>)
   \<and> okta_verify_token
     (fixed_library (Inr ''key-1'')
        (Inr [(''scp'', JList [JStr ''read'', JStr ''read'']), (''cid'', JStr ''0oaXYZ''),
              (''exp'', JInt 2000000000)]))
     (OktaTokenVerifier ''tenant.example'' ''api'' ''default'') ''x.y.z''
   = Inr (Some \<lparr>token = ''x.y.z'', client_id = ''0oaXYZ'',
                 scopes = [''read'', ''read''], expires_at = Some 2000000000\<rparr>)
   \<and> \<not> distinct [''read'', ''read'']"
  by (simp add: auth0_verify_token_def auth0_try_def auth0_grant_def
        okta_verify_token_def okta_try_def okta_grant_def AccessToken_def
        fixed_library_def dict_get_def str_split_def isspace_def)

text \<open>
  C2, amended. In every grant the scopes are a list that holds each scope string as
  often as the scope claim names it: for Auth0 the whitespace-separated words of
  \<^verbatim>\<open>scope\<close>, for Okta the elements of the \<^verbatim>\<open>scp\<close> list, in their order. The scopes of
  the grant are free of duplicates exactly when the claim names no scope twice.
\<close>

theorem scopes_keep_multiplicity:
  assumes "get_signing_key_from_jwt lib (uri (jwks_client self)) tok = Inr k"
    and "decode lib tok k (algorithms self) (issuer self) (audience self)
           [''exp'', ''iss'', ''aud'', ''sub''] = Inr pl"
    and "as_optional_int (dict_get pl ''exp'' JNull) = Some ex"
  shows "(map_of pl ''scope'' = Some (JStr s)
          \<and> as_str (dict_get pl ''sub'' (JStr ''unknown'')) = Some c \<longrightarrow>
          (\<exists>g. auth0_verify_token lib self tok = Inr (Some g)
               \<and> (\<forall>x. count_list (scopes g) x = count_list (str_split s) x)
               \<and> distinct (scopes g) = distinct (str_split s)))
       \<and> (map_of pl ''scp'' = Some (JList (map JStr ss))
          \<and> as_str (dict_get pl ''cid'' (dict_get pl ''sub'' (JStr ''unknown''))) = Some c' \<longrightarrow>
          (\<exists>g. okta_verify_token lib self tok = Inr (Some g)
               \<and> (\<forall>x. count_list (scopes g) x = count_list ss x)
               \<and> distinct (scopes g) = distinct ss))"
proof (intro conjI impI)
  assume a: "map_of pl ''scope'' = Some (JStr s)
          \<and> as_str (dict_get pl ''sub'' (JStr ''unknown'')) = Some c"
  have "auth0_verify_token lib self tok
     = Inr (Some \<lparr>token = tok, client_id = c, scopes = str_split s, expires_at = ex\<rparr>)"
    using a auth0_grant_scope_string [of pl s c ex tok] assms(3)
    by (simp add: auth0_verify_token_cases auth0_try_decoded [OF assms(1,2)])
  then show "\<exists>g. auth0_verify_token lib self tok = Inr (Some g)
               \<and> (\<forall>x. count_list (scopes g) x = count_list (str_split s) x)
               \<and> distinct (scopes g) = distinct (str_split s)"
    by simp
next
  assume b: "map_of pl ''scp'' = Some (JList (map JStr ss))
          \<and> as_str (dict_get pl ''cid'' (dict_get pl ''sub'' (JStr ''unknown''))) = Some c'"
  have "okta_verify_token lib self tok
     = Inr (Some \<lparr>token = tok, client_id = c', scopes = ss, expires_at = ex\<rparr>)"
    using b okta_grant_scp [of pl "[]" ss c' ex tok] assms(3)
    by (simp add: okta_verify_token_cases okta_try_decoded [OF assms(1,2)])
  then show "\<exists>g. okta_verify_token lib self tok = Inr (Some g)
               \<and> (\<forall>x. count_list (scopes g) x = count_list ss x)
               \<and> distinct (scopes g) = distinct ss"
    by simp
qed

theorem scopes_keep_multiplicity_witness:
  "(\<exists>g. auth0_verify_token
          (fixed_library (Inr ''key-1'')
             (Inr [(''scope'', JStr ''read read''), (''sub'', JStr ''auth0|abc123''),
                   (''exp'', JInt 2000000000)]))
          (Auth0TokenVerifier ''tenant.example'' ''api'') ''x.y.z'' = Inr (Some g)
        \<and> count_list (scopes g) ''read'' = 2 \<and> \<not> distinct (scopes g))
   \<and> (\<exists>g. okta_verify_token
          (fixed_library (Inr ''key-1'')
             (Inr [(''scp'', JList [JStr ''read'', JStr ''write'']), (''cid'', JStr ''0oaXYZ''),
                   (''exp'', JInt 2000000000)]))
          (OktaTokenVerifier ''tenant.example'' ''api'' ''default'') ''x.y.z'' = Inr (Some g)
        \<and> count_list (scopes g) ''read'' = 1 \<and> distinct (scopes g))"
proof -
  have w: "str_split ''read read'' = [''read'', ''read'']"
    by (simp add: str_split_def isspace_def)
  show ?thesis
    using scopes_keep_multiplicity
       [of "fixed_library (Inr ''key-1'')
              (Inr [(''scope'', JStr ''read read''), (''sub'', JStr ''auth0|abc123''),
                    (''exp'', JInt 2000000000)])"
           "Auth0TokenVerifier ''tenant.example'' ''api''" "''x.y.z''" "''key-1''"
           "[(''scope'', JStr ''read read''), (''sub'', JStr ''auth0|abc123''),
             (''exp'', JInt 2000000000)]"
           "Some 2000000000" "''read read''" "''auth0|abc123''" "[]" "[]"]
      scopes_keep_multiplicity
       [of "fixed_library (Inr ''key-1'')
              (Inr [(''scp'', JList [JStr ''read'', JStr ''write'']), (''cid'', JStr ''0oaXYZ''),
                    (''exp'', JInt 2000000000)])"
           "OktaTokenVerifier ''tenant.example'' ''api'' ''default''" "''x.y.z''" "''key-1''"
           "[(''scp'', JList [JStr ''read'', JStr ''write'']), (''cid'', JStr ''0oaXYZ''),
             (''exp'', JInt 2000000000)]"
           "Some 2000000000" "[]" "[]" "[''read'', ''write'']" "''0oaXYZ''"]
    by (auto simp: fixed_library_def dict_get_def w)
qed

subsection \<open>Expiry boundary\<close>



subsection \<open>Accepted algorithm\<close>

text \<open>
  C4. Both constructors fix the accepted algorithms to the single entry \<^verbatim>\<open>RS256\<close>,
  whatever their arguments, and \<^verbatim>\<open>verify_token\<close> hands that list to \<^verbatim>\<open>jwt.decode\<close>.
  Hence a token whose header declares any other algorithm is rejected, whatever its
  claims, its signature and the resolved key.
\<close>

theorem rs256_only:
  "algorithms (Auth0TokenVerifier domain aud) = [''RS256'']
   \<and> algorithms (OktaTokenVerifier domain aud auth_server_id) = [''RS256'']
   \<and> (parse tok = Some j \<and> alg j \<noteq> ''RS256'' \<longrightarrow>
        auth0_verify_token (jwt_at resolve parse sig_ok now)
          (Auth0TokenVerifier domain aud) tok = Inr None
        \<and> okta_verify_token (jwt_at resolve parse sig_ok now)
          (OktaTokenVerifier domain aud auth_server_id) tok = Inr None)"
proof (intro conjI impI)
  show a: "algorithms (Auth0TokenVerifier domain aud) = [''RS256'']"
    by (simp add: Auth0TokenVerifier_def)
  show b: "algorithms (OktaTokenVerifier domain aud auth_server_id) = [''RS256'']"
    by (simp add: OktaTokenVerifier_def)
  assume h: "parse tok = Some j \<and> alg j \<noteq> ''RS256''"
  then have p: "parse tok = Some j" and n: "alg j \<notin> set [''RS256'']" by simp_all
  show "auth0_verify_token (jwt_at resolve parse sig_ok now)
          (Auth0TokenVerifier domain aud) tok = Inr None"
    by (simp add: auth0_verify_token_cases auth0_try_jwt_at a
          validate_alg_rejected [where parse = parse and tok = tok, OF p n] split: sum.splits)
  show "okta_verify_token (jwt_at resolve parse sig_ok now)
          (OktaTokenVerifier domain aud auth_server_id) tok = Inr None"
    by (simp add: okta_verify_token_cases okta_try_jwt_at b
          validate_alg_rejected [where parse = parse and tok = tok, OF p n] split: sum.splits)
qed

theorem rs256_only_witness:
  "auth0_verify_token (one_token_library ''HS256'' (tenant_claims 2000) ''key-1'' 1000)
      (Auth0TokenVerifier ''tenant.example'' ''api'') ''x.y.z'' = Inr None
   \<and> okta_verify_token (one_token_library ''HS256'' (tenant_claims 2000) ''key-1'' 1000)
      (OktaTokenVerifier ''tenant.example'' ''api'' ''default'') ''x.y.z'' = Inr None
   \<and> auth0_verify_token (one_token_library ''RS256'' (tenant_claims 2000) ''key-1'' 1000)
      (Auth0TokenVerifier ''tenant.example'' ''api'') ''x.y.z''
     = Inr (Some \<lparr>token = ''x.y.z'', client_id = ''auth0|abc123'',
                   scopes = [''read'', ''write''], expires_at = Some 2000\<rparr>)"
proof -
  have acc: "auth0_verify_token (one_token_library ''RS256'' (tenant_claims 2000) ''key-1'' 1000)
      (Auth0TokenVerifier ''tenant.example'' ''api'') ''x.y.z''
     = Inr (Some \<lparr>token = ''x.y.z'', client_id = ''auth0|abc123'',
                   scopes = [''read'', ''write''], expires_at = Some 2000\<rparr>)"
    by (simp add: auth0_verify_token_def auth0_try_def auth0_grant_def AccessToken_def
          one_token_library_def jwt_at_def validate_def resolve_one_def parse_one_def
          signed_by_def tenant_claims_def Auth0TokenVerifier_def dict_get_def str_split_def
          isspace_def)
  from rs256_only
     [of "''tenant.example''" "''api''" "''default''"
         "parse_one ''x.y.z'' \<lparr>alg = ''HS256'', claims = tenant_claims 2000\<rparr>" "''x.y.z''"
         "\<lparr>alg = ''HS256'', claims = tenant_claims 2000\<rparr>"
         "resolve_one ''key-1''" "signed_by ''key-1''" 1000]
  have "auth0_verify_token (one_token_library ''HS256'' (tenant_claims 2000) ''key-1'' 1000)
      (Auth0TokenVerifier ''tenant.example'' ''api'') ''x.y.z'' = Inr None
   \<and> okta_verify_token (one_token_library ''HS256'' (tenant_claims 2000) ''key-1'' 1000)
      (OktaTokenVerifier ''tenant.example'' ''api'' ''default'') ''x.y.z'' = Inr None"
    by (simp add: one_token_library_def parse_one_def)
  with acc show ?thesis by simp
qed

subsection \<open>Required claims\<close>

text \<open>
  C5. \<^verbatim>\<open>verify_token\<close> requires the claims \<^verbatim>\<open>exp\<close>, \<^verbatim>\<open>iss\<close>, \<^verbatim>\<open>aud\<close> and \<^verbatim>\<open>sub\<close>.
  A token that lacks one of them is rejected, whatever the resolved key and whether or
  not its signature verifies; and whenever a grant is returned, the token carries all
  four. The statement covers both verifiers.
\<close>

theorem required_claims:
  "(parse tok = Some j
     \<and> (map_of (claims j) ''exp'' = None \<or> map_of (claims j) ''iss'' = None
        \<or> map_of (claims j) ''aud'' = None \<or> map_of (claims j) ''sub'' = None) \<longrightarrow>
     auth0_verify_token (jwt_at resolve parse sig_ok now) self tok = Inr None
     \<and> okta_verify_token (jwt_at resolve parse sig_ok now) self tok = Inr None)
   \<and> (auth0_verify_token (jwt_at resolve parse sig_ok now) self tok = Inr (Some g)
       \<or> okta_verify_token (jwt_at resolve parse sig_ok now) self tok = Inr (Some g) \<longrightarrow>
       (\<exists>t. parse tok = Some t
          \<and> map_of (claims t) ''exp'' \<noteq> None \<and> map_of (claims t) ''iss'' \<noteq> None
          \<and> map_of (claims t) ''aud'' \<noteq> None \<and> map_of (claims t) ''sub'' \<noteq> None))"
proof (intro conjI impI)
  assume h: "parse tok = Some j
     \<and> (map_of (claims j) ''exp'' = None \<or> map_of (claims j) ''iss'' = None
        \<or> map_of (claims j) ''aud'' = None \<or> map_of (claims j) ''sub'' = None)"
  then obtain c where c: "c \<in> set [''exp'', ''iss'', ''aud'', ''sub'']"
    "map_of (claims j) c = None"
    by auto
  from h have p: "parse tok = Some j" by simp
  have rej: "\<exists>e. validate parse sig_ok now tok k (algorithms self) (issuer self)
                  (audience self) [''exp'', ''iss'', ''aud'', ''sub''] = Inl e" for k
    by (rule validate_missing_rejected [where parse = parse and tok = tok, OF p c])
  show "auth0_verify_token (jwt_at resolve parse sig_ok now) self tok = Inr None"
  proof (cases "resolve (uri (jwks_client self)) tok")
    case (Inl e)
    then show ?thesis by (simp add: auth0_verify_token_cases auth0_try_jwt_at)
  next
    case (Inr k)
    from rej [of k] obtain e where
      "validate parse sig_ok now tok k (algorithms self) (issuer self)
         (audience self) [''exp'', ''iss'', ''aud'', ''sub''] = Inl e" by blast
    with Inr show ?thesis by (simp add: auth0_verify_token_cases auth0_try_jwt_at)
  qed
  show "okta_verify_token (jwt_at resolve parse sig_ok now) self tok = Inr None"
  proof (cases "resolve (uri (jwks_client self)) tok")
    case (Inl e)
    then show ?thesis by (simp add: okta_verify_token_cases okta_try_jwt_at)
  next
    case (Inr k)
    from rej [of k] obtain e where
      "validate parse sig_ok now tok k (algorithms self) (issuer self)
         (audience self) [''exp'', ''iss'', ''aud'', ''sub''] = Inl e" by blast
    with Inr show ?thesis by (simp add: okta_verify_token_cases okta_try_jwt_at)
  qed
next
  assume "auth0_verify_token (jwt_at resolve parse sig_ok now) self tok = Inr (Some g)
       \<or> okta_verify_token (jwt_at resolve parse sig_ok now) self tok = Inr (Some g)"
  then have "\<exists>k pl. validate parse sig_ok now tok k (algorithms self) (issuer self)
                 (audience self) [''exp'', ''iss'', ''aud'', ''sub''] = Inr pl"
    using auth0_try_jwt_at_InrD [OF auth0_verify_token_SomeD, of resolve parse sig_ok now self tok g]
      okta_try_jwt_at_InrD [OF okta_verify_token_SomeD, of resolve parse sig_ok now self tok g]
    by blast
  then obtain k pl where
    v: "validate parse sig_ok now tok k (algorithms self) (issuer self)
          (audience self) [''exp'', ''iss'', ''aud'', ''sub''] = Inr pl"
    by blast
  from validate_InrD [OF v] obtain t :: jose where
    t: "parse tok = Some t" "pl = claims t"
    by blast
  from validate_required [OF v, of "''exp''"] validate_required [OF v, of "''iss''"]
    validate_required [OF v, of "''aud''"] validate_required [OF v, of "''sub''"] t
  show "\<exists>t. parse tok = Some t
          \<and> map_of (claims t) ''exp'' \<noteq> None \<and> map_of (claims t) ''iss'' \<noteq> None
          \<and> map_of (claims t) ''aud'' \<noteq> None \<and> map_of (claims t) ''sub'' \<noteq> None"
    by simp
qed

theorem required_claims_witness:
  "auth0_verify_token
     (one_token_library ''RS256''
        [(''iss'', JStr ''https://tenant.example/''), (''aud'', JStr ''api''), (''exp'', JInt 2000)]
        ''key-1'' 1000)
     (Auth0TokenVerifier ''tenant.example'' ''api'') ''x.y.z'' = Inr None
   \<and> auth0_verify_token
     (one_token_library ''RS256''
        [(''iss'', JStr ''https://tenant.example/''), (''aud'', JStr ''api''), (''exp'', JInt 2000)]
        ''key-2'' 1000)
     (Auth0TokenVerifier ''tenant.example'' ''api'') ''x.y.z'' = Inr None
   \<and> okta_verify_token
     (one_token_library ''RS256''
        [(''iss'', JStr ''https://tenant.example/oauth2/default''), (''sub'', JStr ''user-7''),
         (''cid'', JStr ''0oaXYZ''), (''exp'', JInt 2000)]
        ''key-1'' 1000)
     (OktaTokenVerifier ''tenant.example'' ''api'' ''default'') ''x.y.z'' = Inr None"
  using required_claims
     [of "parse_one ''x.y.z'' \<lparr>alg = ''RS256'', claims =
            [(''iss'', JStr ''https://tenant.example/''), (''aud'', JStr ''api''),
             (''exp'', JInt 2000)]\<rparr>"
         "''x.y.z''"
         "\<lparr>alg = ''RS256'', claims =
            [(''iss'', JStr ''https://tenant.example/''), (''aud'', JStr ''api''),
             (''exp'', JInt 2000)]\<rparr>"
         "resolve_one ''key-1''" "signed_by ''key-1''" 1000
         "Auth0TokenVerifier ''tenant.example'' ''api''"]
    required_claims
     [of "parse_one ''x.y.z'' \<lparr>alg = ''RS256'', claims =
            [(''iss'', JStr ''https://tenant.example/''), (''aud'', JStr ''api''),
             (''exp'', JInt 2000)]\<rparr>"
         "''x.y.z''"
         "\<lparr>alg = ''RS256'', claims =
            [(''iss'', JStr ''https://tenant.example/''), (''aud'', JStr ''api''),
             (''exp'', JInt 2000)]\<rparr>"
         "resolve_one ''key-1''" "signed_by ''key-2''" 1000
         "Auth0TokenVerifier ''tenant.example'' ''api''"]
    required_claims
     [of "parse_one ''x.y.z'' \<lparr>alg = ''RS256'', claims =
            [(''iss'', JStr ''https://tenant.example/oauth2/default''), (''sub'', JStr ''user-7''),
             (''cid'', JStr ''0oaXYZ''), (''exp'', JInt 2000)]\<rparr>"
         "''x.y.z''"
         "\<lparr>alg = ''RS256'', claims =
            [(''iss'', JStr ''https://tenant.example/oauth2/default''), (''sub'', JStr ''user-7''),
             (''cid'', JStr ''0oaXYZ''), (''exp'', JInt 2000)]\<rparr>"
         "resolve_one ''key-1''" "signed_by ''key-1''" 1000
         "OktaTokenVerifier ''tenant.example'' ''api'' ''default''"]
  by (simp add: one_token_library_def parse_one_def)

subsection \<open>The fallback client identifier\<close>

text \<open>
  C10. Since \<^verbatim>\<open>sub\<close> is among the claims that \<^verbatim>\<open>jwt.decode\<close> requires, the default
  \<^verbatim>\<open>"unknown"\<close> of the lookups is never taken in a grant that is returned. For Auth0 the
  client of the grant is the token's \<^verbatim>\<open>sub\<close> claim; for Okta it is the \<^verbatim>\<open>cid\<close> claim
  when the token has one and the \<^verbatim>\<open>sub\<close> claim otherwise. In both the lookup gives the
  same client whatever default it is given.
\<close>

theorem client_id_never_fallback:
  "(auth0_verify_token (jwt_at resolve parse sig_ok now) self tok = Inr (Some g) \<longrightarrow>
      (\<exists>t. parse tok = Some t
         \<and> map_of (claims t) ''sub'' = Some (JStr (client_id g))
         \<and> (\<forall>d. dict_get (claims t) ''sub'' d = JStr (client_id g))))
   \<and> (okta_verify_token (jwt_at resolve parse sig_ok now) self tok = Inr (Some g') \<longrightarrow>
      (\<exists>t. parse tok = Some t
         \<and> map_of (claims t) ''sub'' \<noteq> None
         \<and> (case map_of (claims t) ''cid'' of
               Some v \<Rightarrow> v = JStr (client_id g')
             | None \<Rightarrow> map_of (claims t) ''sub'' = Some (JStr (client_id g')))
         \<and> (\<forall>d. dict_get (claims t) ''cid'' (dict_get (claims t) ''sub'' d)
                  = JStr (client_id g'))))"
proof (intro conjI impI)
  assume "auth0_verify_token (jwt_at resolve parse sig_ok now) self tok = Inr (Some g)"
  then have "auth0_try (jwt_at resolve parse sig_ok now) self tok = Inr g"
    by (rule auth0_verify_token_SomeD)
  from auth0_try_jwt_at_InrD [OF this] obtain k pl where
    v: "validate parse sig_ok now tok k (algorithms self) (issuer self) (audience self)
          [''exp'', ''iss'', ''aud'', ''sub''] = Inr pl"
    and gr: "auth0_grant tok pl = Inr g"
    by blast
  from validate_InrD [OF v] obtain t :: jose where
    t: "parse tok = Some t" "pl = claims t"
    by blast
  from validate_required [OF v, of "''sub''"] obtain sv where
    sv: "map_of pl ''sub'' = Some sv" by auto
  from auth0_grant_InrD [OF gr] sv have "sv = JStr (client_id g)"
    by (simp add: dict_get_def)
  with sv t show "\<exists>t. parse tok = Some t
         \<and> map_of (claims t) ''sub'' = Some (JStr (client_id g))
         \<and> (\<forall>d. dict_get (claims t) ''sub'' d = JStr (client_id g))"
    by (simp add: dict_get_def)
next
  assume "okta_verify_token (jwt_at resolve parse sig_ok now) self tok = Inr (Some g')"
  then have "okta_try (jwt_at resolve parse sig_ok now) self tok = Inr g'"
    by (rule okta_verify_token_SomeD)
  from okta_try_jwt_at_InrD [OF this] obtain k pl where
    v: "validate parse sig_ok now tok k (algorithms self) (issuer self) (audience self)
          [''exp'', ''iss'', ''aud'', ''sub''] = Inr pl"
    and gr: "okta_grant tok pl = Inr g'"
    by blast
  from validate_InrD [OF v] obtain t :: jose where
    t: "parse tok = Some t" "pl = claims t"
    by blast
  from validate_required [OF v, of "''sub''"] obtain sv where
    sv: "map_of pl ''sub'' = Some sv" by auto
  from okta_grant_InrD [OF gr]
  have c: "dict_get pl ''cid'' (dict_get pl ''sub'' (JStr ''unknown'')) = JStr (client_id g')"
    by simp
  have "map_of pl ''sub'' \<noteq> None
         \<and> (case map_of pl ''cid'' of
               Some v \<Rightarrow> v = JStr (client_id g')
             | None \<Rightarrow> map_of pl ''sub'' = Some (JStr (client_id g')))
         \<and> (\<forall>d. dict_get pl ''cid'' (dict_get pl ''sub'' d) = JStr (client_id g'))"
    using c sv by (auto simp: dict_get_def split: option.splits)
  with t show "\<exists>t. parse tok = Some t
         \<and> map_of (claims t) ''sub'' \<noteq> None
         \<and> (case map_of (claims t) ''cid'' of
               Some v \<Rightarrow> v = JStr (client_id g')
             | None \<Rightarrow> map_of (claims t) ''sub'' = Some (JStr (client_id g')))
         \<and> (\<forall>d. dict_get (claims t) ''cid'' (dict_get (claims t) ''sub'' d)
                  = JStr (client_id g'))"
    by blast
qed

theorem client_id_never_fallback_witness:
  "auth0_verify_token (one_token_library ''RS256'' (tenant_claims 2000) ''key-1'' 1000)
      (Auth0TokenVerifier ''tenant.example'' ''api'') ''x.y.z''
     = Inr (Some \<lparr>token = ''x.y.z'', client_id = ''auth0|abc123'',
                   scopes = [''read'', ''write''], expires_at = Some 2000\<rparr>)
   \<and> map_of (tenant_claims 2000) ''sub'' = Some (JStr ''auth0|abc123'')
   \<and> okta_verify_token (one_token_library ''RS256'' (okta_claims 2000) ''key-1'' 1000)
      (OktaTokenVerifier ''tenant.example'' ''api'' ''default'') ''x.y.z''
     = Inr (Some \<lparr>token = ''x.y.z'', client_id = ''0oaXYZ'',
                   scopes = [''read'', ''write''], expires_at = Some 2000\<rparr>)
   \<and> map_of (okta_claims 2000) ''cid'' = Some (JStr ''0oaXYZ'')"
proof -
  have a: "auth0_verify_token
      (jwt_at (resolve_one ''key-1'')
         (parse_one ''x.y.z'' \<lparr>alg = ''RS256'', claims = tenant_claims 2000\<rparr>)
         (signed_by ''key-1'') 1000)
      (Auth0TokenVerifier ''tenant.example'' ''api'') ''x.y.z''
     = Inr (Some \<lparr>token = ''x.y.z'', client_id = ''auth0|abc123'',
                   scopes = [''read'', ''write''], expires_at = Some 2000\<rparr>)"
    by (simp add: auth0_verify_token_def auth0_try_def auth0_grant_def AccessToken_def
          jwt_at_def validate_def resolve_one_def parse_one_def signed_by_def
          tenant_claims_def Auth0TokenVerifier_def dict_get_def str_split_def isspace_def)
  have b: "okta_verify_token
      (jwt_at (resolve_one ''key-1'')
         (parse_one ''x.y.z'' \<lparr>alg = ''RS256'', claims = okta_claims 2000\<rparr>)
         (signed_by ''key-1'') 1000)
      (OktaTokenVerifier ''tenant.example'' ''api'' ''default'') ''x.y.z''
     = Inr (Some \<lparr>token = ''x.y.z'', client_id = ''0oaXYZ'',
                   scopes = [''read'', ''write''], expires_at = Some 2000\<rparr>)"
    by (simp add: okta_verify_token_def okta_try_def okta_grant_def AccessToken_def
          jwt_at_def validate_def resolve_one_def parse_one_def signed_by_def
          okta_claims_def OktaTokenVerifier_def dict_get_def)
  from client_id_never_fallback
     [of "resolve_one ''key-1''"
         "parse_one ''x.y.z'' \<lparr>alg = ''RS256'', claims = tenant_claims 2000\<rparr>"
         "signed_by ''key-1''" 1000 "Auth0TokenVerifier ''tenant.example'' ''api''" "''x.y.z''"
         "\<lparr>token = ''x.y.z'', client_id = ''auth0|abc123'',
           scopes = [''read'', ''write''], expires_at = Some 2000\<rparr>"] a
  have c: "map_of (tenant_claims 2000) ''sub'' = Some (JStr ''auth0|abc123'')"
    by (auto simp: parse_one_def)
  from client_id_never_fallback
     [of "resolve_one ''key-1''"
         "parse_one ''x.y.z'' \<lparr>alg = ''RS256'', claims = okta_claims 2000\<rparr>"
         "signed_by ''key-1''" 1000 "OktaTokenVerifier ''tenant.example'' ''api'' ''default''"
         "''x.y.z''" _
         "\<lparr>token = ''x.y.z'', client_id = ''0oaXYZ'',
           scopes = [''read'', ''write''], expires_at = Some 2000\<rparr>"] b
  have d: "map_of (okta_claims 2000) ''cid'' = Some (JStr ''0oaXYZ'')"
    by (simp add: parse_one_def okta_claims_def)
  from a b c d show ?thesis by (simp add: one_token_library_def)
qed

end
